theory Spec2Isabelle
  imports Main "HOL-Library.AList"
begin

section \<open>Data model of the bakery manager\<close>

text \<open>
  The four classes of \<^verbatim>\<open>main.py\<close> become records with the fields of their
  constructors. Quantities, prices and totals are Python numbers, ints or floats (the
  forms convert user input with \<^verbatim>\<open>float\<close> or \<^verbatim>\<open>int\<close>, the files are read with
  \<^verbatim>\<open>json.load\<close>). Their type is the parameter \<open>'n\<close>. Python's comparisons of
  numbers never raise and obey no law that the program could rely on (every comparison
  with \<^verbatim>\<open>nan\<close> is false), so \<open><\<close> and \<open>\<le>\<close> are those of the class \<open>ord\<close>, which
  assumes nothing about them; \<open>0\<close> is the int \<^verbatim>\<open>0\<close>. A Python dict is an association
  list in insertion order; its keys are pairwise distinct.
\<close>

type_synonym datetime = nat

type_synonym 'v dict = "(string \<times> 'v) list"

record 'n Ingredient =
  name :: string
  quantity :: 'n
  unit :: string
  reorder_level :: 'n

record 'n Product =
  name :: string
  price :: 'n
  recipe :: "'n dict"
  quantity :: 'n

record 'n Order =
  order_id :: string
  customer_name :: string
  items :: "'n dict"
  total :: 'n
  status :: string
  timestamp :: datetime

record Staff =
  name :: string
  role :: string
  shifts :: "string list"

record 'n BakeryManager =
  ingredients :: "'n Ingredient list"
  products :: "'n Product list"
  orders :: "'n Order list"
  staff :: "Staff list"

text \<open>
  The exceptions that the modelled code can raise. Python's \<^verbatim>\<open>+\<close>, \<^verbatim>\<open>-\<close> and
  \<^verbatim>\<open>*\<close> round their float results, and raise \<^verbatim>\<open>OverflowError\<close> when a float meets
  an int too large to be converted. They are parameters, collected in a record; each
  returns its result or the exception it raises.
\<close>

datatype py_error = StopIteration | OverflowError

type_synonym 'a result = "py_error + 'a"

record 'n arith =
  py_add :: "'n \<Rightarrow> 'n \<Rightarrow> 'n result"
  py_sub :: "'n \<Rightarrow> 'n \<Rightarrow> 'n result"
  py_mul :: "'n \<Rightarrow> 'n \<Rightarrow> 'n result"
  py_sorted_by_count :: "(string \<times> 'n) list \<Rightarrow> (string \<times> 'n) list"

text \<open>
  \<^verbatim>\<open>Order.__init__(customer_name, items, order_id=None, total=0, status="Pending",
  timestamp=None)\<close>. The two reads of the clock are the arguments \<open>now_id\<close> (the
  formatted time that becomes the order id) and \<open>now\<close>. An absent or empty
  \<open>order_id\<close> is replaced by \<open>now_id\<close>, an absent \<open>timestamp\<close> by \<open>now\<close>; a
  timestamp that is given is taken as already parsed.
\<close>

definition Order_init ::
  "string \<Rightarrow> datetime \<Rightarrow> string \<Rightarrow> 'n dict \<Rightarrow> string option \<Rightarrow> 'n \<Rightarrow> string
     \<Rightarrow> datetime option \<Rightarrow> 'n Order" where
  "Order_init now_id now cust its oid tot st ts =
     \<lparr> order_id = (case oid of None \<Rightarrow> now_id | Some i \<Rightarrow> if i = [] then now_id else i),
       customer_name = cust,
       items = its,
       total = tot,
       status = st,
       timestamp = (case ts of None \<Rightarrow> now | Some t \<Rightarrow> t) \<rparr>"

section \<open>Operations of \<open>BakeryManager\<close>\<close>

text \<open>
  \<^verbatim>\<open>next((x for x in xs if P(x)), None)\<close> is \<^const>\<open>List.find\<close>. Assigning to a
  field of the object found changes that one element of the list in place:
  \<open>map_first\<close> applies \<open>f\<close> to the first element satisfying \<open>P\<close>. No two entries of
  a list are the same object: the lists are built from freshly constructed objects only.
  An operation returns its result, or the exception that ended it, together with the
  manager as it is at that moment: an assignment made before an exception stays.
  \<^verbatim>\<open>save_data\<close> writes the four lists to their files and leaves the manager as it is;
  the files are not modelled.
\<close>

fun map_first :: "('a \<Rightarrow> bool) \<Rightarrow> ('a \<Rightarrow> 'a) \<Rightarrow> 'a list \<Rightarrow> 'a list" where
  "map_first P f [] = []"
| "map_first P f (x # xs) = (if P x then f x # xs else x # map_first P f xs)"

text \<open>
  Python's \<^verbatim>\<open>sum\<close> over a generator: start at the int 0, take the next element (whose
  computation may raise) and add it, from left to right.
\<close>

fun sum_from :: "'n arith \<Rightarrow> 'n \<Rightarrow> 'n result list \<Rightarrow> 'n result" where
  "sum_from A acc [] = Inr acc"
| "sum_from A acc (Inl e # xs) = Inl e"
| "sum_from A acc (Inr x # xs) =
     (case py_add A acc x of
        Inl e \<Rightarrow> Inl e
      | Inr acc' \<Rightarrow> sum_from A acc' xs)"

definition py_sum :: "('n::zero) arith \<Rightarrow> 'n result list \<Rightarrow> 'n result" where
  "py_sum A xs = sum_from A 0 xs"

definition add_ingredient ::
  "string \<Rightarrow> 'n \<Rightarrow> string \<Rightarrow> 'n \<Rightarrow> 'n BakeryManager \<Rightarrow> 'n BakeryManager" where
  "add_ingredient n q u r s =
     s\<lparr>ingredients := ingredients s @
        [\<lparr>Ingredient.name = n, quantity = q, unit = u, reorder_level = r\<rparr>]\<rparr>"

definition restock_ingredient ::
  "'n arith \<Rightarrow> string \<Rightarrow> 'n \<Rightarrow> 'n BakeryManager \<Rightarrow> bool result \<times> 'n BakeryManager" where
  "restock_ingredient A n q s =
     (case List.find (\<lambda>i. Ingredient.name i = n) (ingredients s) of
        None \<Rightarrow> (Inr False, s)
      | Some ingredient \<Rightarrow>
          (case py_add A (Ingredient.quantity ingredient) q of
             Inl e \<Rightarrow> (Inl e, s)
           | Inr v \<Rightarrow>
               (Inr True,
                s\<lparr>ingredients :=
                    map_first (\<lambda>i. Ingredient.name i = n) (\<lambda>i. i\<lparr>Ingredient.quantity := v\<rparr>)
                      (ingredients s)\<rparr>)))"

text \<open>The comprehension of \<^verbatim>\<open>check_low_stock\<close>, as the loop it abbreviates.\<close>

fun low_stock :: "('n::ord) Ingredient list \<Rightarrow> 'n Ingredient list" where
  "low_stock [] = []"
| "low_stock (ing # ings) =
     (if Ingredient.quantity ing < reorder_level ing then ing # low_stock ings
      else low_stock ings)"

definition check_low_stock :: "('n::ord) BakeryManager \<Rightarrow> 'n Ingredient list" where
  "check_low_stock s = low_stock (ingredients s)"

definition add_product ::
  "string \<Rightarrow> 'n \<Rightarrow> 'n dict \<Rightarrow> 'n \<Rightarrow> 'n BakeryManager \<Rightarrow> 'n BakeryManager" where
  "add_product n p r q s =
     s\<lparr>products := products s @
        [\<lparr>Product.name = n, price = p, recipe = r, quantity = q\<rparr>]\<rparr>"

definition get_product_price :: "('n::zero) BakeryManager \<Rightarrow> string \<Rightarrow> 'n" where
  "get_product_price s product_name =
     (case List.find (\<lambda>p. Product.name p = product_name) (products s) of
        Some product \<Rightarrow> price product
      | None \<Rightarrow> 0)"

text \<open>The first loop of \<^verbatim>\<open>create_order\<close>: it only reads the products.\<close>

fun stock_ok :: "('n::ord) Product list \<Rightarrow> 'n dict \<Rightarrow> bool" where
  "stock_ok ps [] = True"
| "stock_ok ps ((product_name, qty) # its) =
     (case List.find (\<lambda>p. Product.name p = product_name) ps of
        None \<Rightarrow> False
      | Some product \<Rightarrow> if Product.quantity product < qty then False else stock_ok ps its)"

text \<open>
  The second loop. \<^verbatim>\<open>next\<close> has no default here, so a missing product raises
  \<^verbatim>\<open>StopIteration\<close>; the subtraction may raise; the products deducted before an
  exception stay deducted.
\<close>

fun deduct :: "'n arith \<Rightarrow> 'n dict \<Rightarrow> 'n Product list \<Rightarrow> unit result \<times> 'n Product list" where
  "deduct A [] ps = (Inr (), ps)"
| "deduct A ((product_name, qty) # its) ps =
     (case List.find (\<lambda>p. Product.name p = product_name) ps of
        None \<Rightarrow> (Inl StopIteration, ps)
      | Some product \<Rightarrow>
          (case py_sub A (Product.quantity product) qty of
             Inl e \<Rightarrow> (Inl e, ps)
           | Inr v \<Rightarrow>
               deduct A its
                 (map_first (\<lambda>p. Product.name p = product_name)
                    (\<lambda>p. p\<lparr>Product.quantity := v\<rparr>) ps)))"

text \<open>
  \<^verbatim>\<open>sum(self.get_product_price(name) * qty for name, qty in items.items())\<close>
\<close>

definition order_total :: "('n::zero) arith \<Rightarrow> 'n BakeryManager \<Rightarrow> 'n dict \<Rightarrow> 'n result" where
  "order_total A s its = py_sum A (map (\<lambda>(n, qty). py_mul A (get_product_price s n) qty) its)"

definition create_order ::
  "('n::{ord,zero}) arith \<Rightarrow> string \<Rightarrow> datetime \<Rightarrow> string \<Rightarrow> 'n dict \<Rightarrow> 'n BakeryManager
     \<Rightarrow> bool result \<times> 'n BakeryManager" where
  "create_order A now_id now cust its s =
     (if \<not> stock_ok (products s) its then (Inr False, s)
      else case deduct A its (products s) of
        (Inl e, ps) \<Rightarrow> (Inl e, s\<lparr>products := ps\<rparr>)
      | (Inr u, ps) \<Rightarrow>
          let s1 = s\<lparr>products := ps\<rparr>;
              order = Order_init now_id now cust its None 0 ''Pending'' None
          in (case order_total A s1 its of
                Inl e \<Rightarrow> (Inl e, s1)
              | Inr t \<Rightarrow> (Inr True, s1\<lparr>orders := orders s1 @ [order\<lparr>total := t\<rparr>]\<rparr>)))"

definition add_staff ::
  "string \<Rightarrow> string \<Rightarrow> string list \<Rightarrow> 'n BakeryManager \<Rightarrow> 'n BakeryManager" where
  "add_staff n r sh s = s\<lparr>staff := staff s @ [\<lparr>Staff.name = n, role = r, shifts = sh\<rparr>]\<rparr>"







section \<open>Form handlers of \<open>BakeryGUI\<close> that change the manager\<close>

text \<open>
  Each \<^verbatim>\<open>submit\<close> closure is a function of the texts read from its entries
  (\<^verbatim>\<open>get_value\<close>) and of the manager; it returns the manager it leaves behind and,
  where it does arithmetic, the exception that ended it, if any. The dialogs it shows
  and the redrawing of the window are not modelled. The built-ins \<^verbatim>\<open>int\<close>,
  \<^verbatim>\<open>float\<close> and \<^verbatim>\<open>str.strip\<close> are parameters: \<open>py_int\<close> says whether \<^verbatim>\<open>int\<close>
  accepts a text, \<open>py_float\<close> is the number \<^verbatim>\<open>float\<close> reads, or \<open>None\<close> for
  \<^verbatim>\<open>ValueError\<close>.
\<close>

fun split_comma :: "string \<Rightarrow> string list" where
  "split_comma [] = [[]]"
| "split_comma (c # cs) =
     (if c = CHR '','' then [] # split_comma cs
      else case split_comma cs of
             [] \<Rightarrow> [[c]]
           | w # ws \<Rightarrow> (c # w) # ws)"

text \<open>\<^verbatim>\<open>add_staff_window.submit\<close>\<close>

definition add_staff_submit ::
  "(string \<Rightarrow> bool) \<Rightarrow> (string \<Rightarrow> string) \<Rightarrow> string \<Rightarrow> string \<Rightarrow> string
     \<Rightarrow> 'n BakeryManager \<Rightarrow> 'n BakeryManager" where
  "add_staff_submit py_int py_strip nm roll shifts_input s =
     (if nm = [] \<and> roll = [] \<and> shifts_input = [] then s
      else if nm = [] then s
      else if roll = [] then s
      else if \<not> py_int roll then s
      else if shifts_input = [] then s
      else case List.find (\<lambda>x. role x = roll) (staff s) of
        Some existing_staff \<Rightarrow> s
      | None \<Rightarrow>
          let shifts = filter (\<lambda>shift. shift \<noteq> []) (map py_strip (split_comma shifts_input))
          in if shifts = [] then s else add_staff nm roll shifts s)"

text \<open>
  \<^verbatim>\<open>update_order_status_window.submit\<close>. The order and the product found are changed
  field by field, in the order of the source: the items, the total, the stock, the status.
\<close>

definition add_item :: "'n arith \<Rightarrow> string \<Rightarrow> 'n \<Rightarrow> 'n dict \<Rightarrow> 'n dict result" where
  "add_item A product_name qty its =
     (case map_of its product_name of
        Some old \<Rightarrow>
          (case py_add A old qty of
             Inl e \<Rightarrow> Inl e
           | Inr v \<Rightarrow> Inr (AList.update product_name v its))
      | None \<Rightarrow> Inr (AList.update product_name qty its))"

definition update_found ::
  "'n arith \<Rightarrow> string \<Rightarrow> string \<Rightarrow> 'n \<Rightarrow> 'n Order \<Rightarrow> 'n Product \<Rightarrow> 'n BakeryManager
     \<Rightarrow> py_error option \<times> 'n BakeryManager" where
  "update_found A oid product_name qty order product s =
     (case add_item A product_name qty (items order) of
        Inl e \<Rightarrow> (Some e, s)
      | Inr its \<Rightarrow>
          (let s1 = s\<lparr>orders := map_first (\<lambda>ord. order_id ord = oid)
                                   (\<lambda>ord. ord\<lparr>items := its\<rparr>) (orders s)\<rparr>
           in (case py_mul A (price product) qty of
                 Inl e \<Rightarrow> (Some e, s1)
               | Inr v \<Rightarrow>
                   (case py_add A (total order) v of
                      Inl e \<Rightarrow> (Some e, s1)
                    | Inr t \<Rightarrow>
                        (let s2 = s1\<lparr>orders := map_first (\<lambda>ord. order_id ord = oid)
                                                 (\<lambda>ord. ord\<lparr>total := t\<rparr>) (orders s1)\<rparr>
                         in (case py_sub A (Product.quantity product) qty of
                               Inl e \<Rightarrow> (Some e, s2)
                             | Inr q \<Rightarrow>
                                 (None,
                                  s2\<lparr>products :=
                                       map_first (\<lambda>p. Product.name p = product_name)
                                         (\<lambda>p. p\<lparr>Product.quantity := q\<rparr>) (products s2),
                                     orders :=
                                       map_first (\<lambda>ord. order_id ord = oid)
                                         (\<lambda>ord. ord\<lparr>status := ''Updated''\<rparr>)
                                         (orders s2)\<rparr>)))))))"

definition update_order_submit ::
  "('n::{ord,zero}) arith \<Rightarrow> (string \<Rightarrow> 'n option) \<Rightarrow> string \<Rightarrow> string \<Rightarrow> string
     \<Rightarrow> 'n BakeryManager \<Rightarrow> py_error option \<times> 'n BakeryManager" where
  "update_order_submit A py_float oid product_name quantity_text s =
     (if oid = [] \<or> product_name = [] \<or> quantity_text = [] then (None, s)
      else case py_float quantity_text of
        None \<Rightarrow> (None, s)
      | Some qty \<Rightarrow>
          (if qty \<le> 0 then (None, s)
           else (case List.find (\<lambda>ord. order_id ord = oid) (orders s) of
             None \<Rightarrow> (None, s)
           | Some order \<Rightarrow>
               (case List.find (\<lambda>p. Product.name p = product_name) (products s) of
                  None \<Rightarrow> (None, s)
                | Some product \<Rightarrow>
                    if Product.quantity product < qty then (None, s)
                    else update_found A oid product_name qty order product s))))"

text \<open>\<^verbatim>\<open>product_status_window.submit\<close>\<close>

definition product_status_submit ::
  "'n arith \<Rightarrow> (string \<Rightarrow> 'n option) \<Rightarrow> string \<Rightarrow> string \<Rightarrow> 'n BakeryManager
     \<Rightarrow> py_error option \<times> 'n BakeryManager" where
  "product_status_submit A py_float product_name quantity_text s =
     (if product_name = [] \<or> quantity_text = [] then (None, s)
      else case py_float quantity_text of
        None \<Rightarrow> (None, s)
      | Some qty \<Rightarrow>
          (case List.find (\<lambda>p. Product.name p = product_name) (products s) of
             None \<Rightarrow> (None, s)
           | Some product \<Rightarrow>
               (case py_add A (Product.quantity product) qty of
                  Inl e \<Rightarrow> (Some e, s)
                | Inr v \<Rightarrow>
                    (None,
                     s\<lparr>products := map_first (\<lambda>p. Product.name p = product_name)
                                      (\<lambda>p. p\<lparr>Product.quantity := v\<rparr>) (products s)\<rparr>))))"

text \<open>\<^verbatim>\<open>pending_orders.mark_orders_complete\<close>, with the set of ticked order ids.\<close>

fun mark_complete :: "string set \<Rightarrow> 'n Order list \<Rightarrow> 'n Order list" where
  "mark_complete selected_orders [] = []"
| "mark_complete selected_orders (order # os) =
     (if order_id order \<in> selected_orders then order\<lparr>status := ''Completed''\<rparr> else order)
       # mark_complete selected_orders os"

definition mark_orders_complete :: "string set \<Rightarrow> 'n BakeryManager \<Rightarrow> 'n BakeryManager" where
  "mark_orders_complete selected_orders s =
     s\<lparr>orders := mark_complete selected_orders (orders s)\<rparr>"

section \<open>Properties used in the claims\<close>

text \<open>The three statuses an order can have, and the state in which every order has one.\<close>

definition valid_status :: "string \<Rightarrow> bool" where
  "valid_status st \<longleftrightarrow> st = ''Pending'' \<or> st = ''Completed'' \<or> st = ''Updated''"

definition statuses_valid :: "'n BakeryManager \<Rightarrow> bool" where
  "statuses_valid s \<longleftrightarrow> list_all (\<lambda>order. valid_status (status order)) (orders s)"





section \<open>Example states\<close>

text \<open>
  The examples are states all of whose numbers are Python ints, whose arithmetic is
  exact and never raises; on floats of these values Python computes the same numbers.
\<close>

definition int_arith :: "int arith" where
  "int_arith =
     \<lparr>py_add = (\<lambda>a b. Inr (a + b)), py_sub = (\<lambda>a b. Inr (a - b)),
      py_mul = (\<lambda>a b. Inr (a * b)), py_sorted_by_count = sort_key (\<lambda>x. - snd x)\<rparr>"

definition example_products :: "int Product list" where
  "example_products =
     [\<lparr>Product.name = ''bread'', price = 3, recipe = [(''flour'', 500)], quantity = 4\<rparr>,
      \<lparr>Product.name = ''cake'', price = 12, recipe = [(''flour'', 300), (''sugar'', 100)],
        quantity = 2\<rparr>]"

definition example_ingredients :: "int Ingredient list" where
  "example_ingredients =
     [\<lparr>Ingredient.name = ''flour'', quantity = 100, unit = ''g'', reorder_level = 500\<rparr>,
      \<lparr>Ingredient.name = ''sugar'', quantity = 200, unit = ''g'', reorder_level = 200\<rparr>]"

definition example_manager :: "int BakeryManager" where
  "example_manager =
     \<lparr>ingredients = example_ingredients, products = example_products, orders = [], staff = []\<rparr>"


definition stale_bread :: "int Product" where
  "stale_bread =
     \<lparr>Product.name = ''bread'', price = 2, recipe = [(''flour'', 500)], quantity = 0\<rparr>"

definition fresh_bread :: "int Product" where
  "fresh_bread =
     \<lparr>Product.name = ''bread'', price = 3, recipe = [(''flour'', 500)], quantity = 5\<rparr>"

definition duplicate_manager :: "int BakeryManager" where
  "duplicate_manager =
     \<lparr>ingredients = [], products = [stale_bread, fresh_bread], orders = [], staff = []\<rparr>"


definition staffed_manager :: "int BakeryManager" where
  "staffed_manager =
     \<lparr>ingredients = [], products = [], orders = [],
      staff = [\<lparr>Staff.name = ''Ann'', role = ''1'', shifts = [''Mon'']\<rparr>]\<rparr>"

definition example_orders :: "int BakeryManager" where
  "example_orders =
     \<lparr>ingredients = [], products = example_products,
      orders =
        [\<lparr>order_id = ''A'', customer_name = ''Ann'', items = [(''bread'', 1)], total = 3,
           status = ''Pending'', timestamp = 1\<rparr>,
         \<lparr>order_id = ''B'', customer_name = ''Bob'', items = [(''cake'', 1)], total = 12,
           status = ''Completed'', timestamp = 2\<rparr>,
         \<lparr>order_id = ''C'', customer_name = ''Cy'', items = [(''cake'', 2)], total = 24,
           status = ''Updated'', timestamp = 3\<rparr>,
         \<lparr>order_id = ''D'', customer_name = ''Di'', items = [(''bread'', 2)], total = 6,
           status = ''Completed'', timestamp = 4\<rparr>],
      staff = []\<rparr>"

definition read_one :: "string \<Rightarrow> int option" where
  "read_one t = (if t = ''1'' then Some 1 else None)"

section \<open>Auxiliary facts\<close>

lemma map_first_length [simp]: "length (map_first P f xs) = length xs"
  by (induction xs) simp_all


lemma map_first_list_all:
  "list_all Q xs \<Longrightarrow> (\<And>x. Q x \<Longrightarrow> Q (f x)) \<Longrightarrow> list_all Q (map_first P f xs)"
  by (induction xs) simp_all


lemma find_SomeD: "List.find P xs = Some x \<Longrightarrow> x \<in> set xs \<and> P x"
  by (induction xs) (auto split: if_splits)

lemma find_name_set:
  "List.find (\<lambda>p. Product.name p = n) ps = None \<longleftrightarrow> n \<notin> set (map Product.name ps)"
  by (induction ps) auto






lemma create_order_cases:
  fixes A :: "('n::{ord,zero}) arith"
  defines "D \<equiv> \<lambda>its s. deduct A its (products s)"
  shows
  "(\<not> stock_ok (products s) its \<and> create_order A now_id now cust its s = (Inr False, s)) \<or>
   (stock_ok (products s) its \<and>
      (\<exists>e. create_order A now_id now cust its s = (Inl e, s\<lparr>products := snd (D its s)\<rparr>))) \<or>
   (stock_ok (products s) its \<and> fst (D its s) = Inr () \<and>
      (\<exists>t. order_total A (s\<lparr>products := snd (D its s)\<rparr>) its = Inr t \<and>
         create_order A now_id now cust its s =
           (Inr True,
            s\<lparr>products := snd (D its s),
               orders := orders s @
                 [(Order_init now_id now cust its None 0 ''Pending'' None)\<lparr>total := t\<rparr>]\<rparr>)))"
  unfolding D_def
  by (cases "deduct A its (products s)")
    (auto simp: create_order_def Let_def split: sum.splits)

lemmas example_defs = example_manager_def example_products_def example_ingredients_def

lemmas create_order_eval = create_order_def Order_init_def order_total_def py_sum_def
  get_product_price_def int_arith_def Let_def

lemma not_stock_ok:
  "\<not> stock_ok ps its \<Longrightarrow>
     \<exists>(n, q) \<in> set its. n \<notin> set (map Product.name ps) \<or>
        (\<exists>p \<in> set ps. Product.name p = n \<and> Product.quantity p < q)"
proof (induction its)
  case Nil
  then show ?case by simp
next
  case (Cons it its)
  obtain n q where it: "it = (n, q)" by (cases it)
  show ?case
  proof (cases "List.find (\<lambda>p. Product.name p = n) ps")
    case None
    then show ?thesis using it by (simp add: find_name_set)
  next
    case (Some p)
    show ?thesis
    proof (cases "Product.quantity p < q")
      case True
      with find_SomeD [OF Some] it show ?thesis by auto
    next
      case False
      with Some Cons.prems it have "\<not> stock_ok ps its" by simp
      from Cons.IH [OF this] show ?thesis by auto
    qed
  qed
qed

lemma low_stock_filter:
  "low_stock ings = filter (\<lambda>ing. Ingredient.quantity ing < reorder_level ing) ings"
  by (induction ings) simp_all


lemma mark_complete_valid:
  "list_all (\<lambda>order. valid_status (status order)) os \<Longrightarrow>
     list_all (\<lambda>order. valid_status (status order)) (mark_complete sel os)"
  by (induction os) (simp_all add: valid_status_def)

lemma update_found_valid:
  "statuses_valid s \<Longrightarrow> statuses_valid (snd (update_found A oid pn qty order product s))"
  by (simp add: update_found_def statuses_valid_def Let_def map_first_list_all valid_status_def
      split: sum.splits)

lemma update_order_submit_valid:
  "statuses_valid s \<Longrightarrow> statuses_valid (snd (update_order_submit A py_float oid pn qt s))"
  by (simp add: update_order_submit_def update_found_valid split: option.splits)

lemma find_role_set:
  "List.find (\<lambda>x. role x = r) xs = None \<longleftrightarrow> r \<notin> set (map role xs)"
  by (induction xs) auto








section \<open>The claims\<close>






text \<open>
  Claim C3. \<open>create_order\<close> leaves the ingredients as they were, whether it returns
  \<open>True\<close>, returns \<open>False\<close> or is ended by an exception: the recipes of the ordered
  products are never consumed.
\<close>

theorem create_order_ingredients_unchanged:
  "ingredients (snd (create_order A now_id now cust its s)) = ingredients s"
  using create_order_cases [of s its A now_id now cust] by auto

text \<open>
  Claim C4. \<open>check_low_stock\<close> returns, in list order, exactly the ingredients whose
  quantity is strictly below their reorder level; an ingredient whose quantity is not
  below its reorder level is not in the result, in particular (\<open><\<close> being irreflexive)
  one whose quantity equals its reorder level.
\<close>

theorem check_low_stock_strict:
  fixes s :: "('n::ord) BakeryManager"
  shows "check_low_stock s =
     filter (\<lambda>ing. Ingredient.quantity ing < reorder_level ing) (ingredients s) \<and>
   (\<forall>ing \<in> set (ingredients s).
      \<not> Ingredient.quantity ing < reorder_level ing \<longrightarrow> ing \<notin> set (check_low_stock s)) \<and>
   ((\<forall>x :: 'n. \<not> x < x) \<longrightarrow>
      (\<forall>ing \<in> set (ingredients s).
         Ingredient.quantity ing = reorder_level ing \<longrightarrow> ing \<notin> set (check_low_stock s)))"
  by (auto simp: check_low_stock_def low_stock_filter)

theorem check_low_stock_strict_witness:
  "check_low_stock example_manager = [hd example_ingredients] \<and>
   (\<forall>x :: int. \<not> x < x) \<and>
   example_ingredients ! 1 \<in> set (ingredients example_manager) \<and>
   Ingredient.quantity (example_ingredients ! 1) = reorder_level (example_ingredients ! 1) \<and>
   example_ingredients ! 1 \<notin> set (check_low_stock example_manager)"
proof -
  have i: "\<forall>x :: int. \<not> x < x" by simp
  have a: "example_ingredients ! 1 \<in> set (ingredients example_manager)"
    by (simp add: example_defs)
  have b: "Ingredient.quantity (example_ingredients ! 1) = reorder_level (example_ingredients ! 1)"
    by (simp add: example_defs)
  note inst = check_low_stock_strict [of example_manager]
  from inst have "check_low_stock example_manager =
      filter (\<lambda>ing. Ingredient.quantity ing < reorder_level ing) (ingredients example_manager)"
    by blast
  then have d: "check_low_stock example_manager = [hd example_ingredients]"
    by (simp add: example_defs)
  from inst i a b have "example_ingredients ! 1 \<notin> set (check_low_stock example_manager)"
    by blast
  with i a b d show ?thesis by blast
qed



text \<open>
  Claim C6, amended to the form handler. When some staff member already has the role
  entered, \<open>add_staff_window.submit\<close> leaves the manager unchanged; hence it keeps the
  roles pairwise distinct when they were so before.
\<close>

theorem add_staff_submit_unique:
  "((\<exists>x \<in> set (staff s). role x = roll) \<longrightarrow>
      add_staff_submit py_int py_strip nm roll shifts_input s = s) \<and>
   (distinct (map role (staff s)) \<longrightarrow>
      distinct (map role (staff (add_staff_submit py_int py_strip nm roll shifts_input s))))"
proof (intro conjI impI)
  assume "\<exists>x \<in> set (staff s). role x = roll"
  then have "List.find (\<lambda>x. role x = roll) (staff s) \<noteq> None"
    by (auto simp: find_role_set)
  then show "add_staff_submit py_int py_strip nm roll shifts_input s = s"
    by (auto simp: add_staff_submit_def)
next
  assume "distinct (map role (staff s))"
  then show "distinct (map role (staff (add_staff_submit py_int py_strip nm roll shifts_input s)))"
    by (auto simp: add_staff_submit_def add_staff_def Let_def find_role_set
        split: option.splits)
qed

theorem add_staff_submit_unique_witness:
  "(\<exists>x \<in> set (staff staffed_manager). role x = ''1'') \<and>
   add_staff_submit (\<lambda>t. True) id ''Bob'' ''1'' ''Tue'' staffed_manager = staffed_manager \<and>
   distinct (map role (staff staffed_manager)) \<and>
   distinct (map role (staff (add_staff_submit (\<lambda>t. True) id ''Bob'' ''2'' ''Tue,Wed''
      staffed_manager))) \<and>
   map role (staff (add_staff_submit (\<lambda>t. True) id ''Bob'' ''2'' ''Tue,Wed'' staffed_manager)) =
     [''1'', ''2'']"
proof -
  have a: "\<exists>x \<in> set (staff staffed_manager). role x = ''1''"
    by (simp add: staffed_manager_def)
  have b: "distinct (map role (staff staffed_manager))"
    by (simp add: staffed_manager_def)
  have c: "map role (staff (add_staff_submit (\<lambda>t. True) id ''Bob'' ''2'' ''Tue,Wed''
      staffed_manager)) = [''1'', ''2'']"
    by (simp add: add_staff_submit_def add_staff_def staffed_manager_def Let_def)
  from add_staff_submit_unique [where s = staffed_manager and roll = "''1''"
        and py_int = "\<lambda>t. True" and py_strip = id and nm = "''Bob''" and shifts_input = "''Tue''",
      THEN conjunct1, rule_format, OF a]
    add_staff_submit_unique [where s = staffed_manager and roll = "''2''"
        and py_int = "\<lambda>t. True" and py_strip = id and nm = "''Bob''"
        and shifts_input = "''Tue,Wed''",
      THEN conjunct2, rule_format, OF b] a b c
  show ?thesis by simp
qed

text \<open>
  Claim C6 as stated fails for \<open>BakeryManager.add_staff\<close>, which appends without looking
  at the roles already present.
\<close>

theorem add_staff_duplicate_role:
  "map role (staff staffed_manager) = [''1''] \<and>
   map role (staff (add_staff ''Bob'' ''1'' [''Tue''] staffed_manager)) = [''1'', ''1''] \<and>
   staff (add_staff ''Bob'' ''1'' [''Tue''] staffed_manager) \<noteq> staff staffed_manager"
  by (simp add: add_staff_def staffed_manager_def)

text \<open>
  Claim C7. If every order has one of the statuses \<open>Pending\<close>, \<open>Completed\<close>,
  \<open>Updated\<close>, then so does every order after creating an order, after marking orders
  complete and after updating an order, also when an exception ends the operation; and
  a created order has status \<open>Pending\<close>.
\<close>

theorem order_status_invariant:
  assumes "statuses_valid s"
  shows "statuses_valid (snd (create_order A now_id now cust its s)) \<and>
         (fst (create_order A now_id now cust its s) = Inr True \<longrightarrow>
            status (last (orders (snd (create_order A now_id now cust its s)))) = ''Pending'') \<and>
         statuses_valid (mark_orders_complete selected_orders s) \<and>
         statuses_valid (snd (update_order_submit A py_float oid product_name quantity_text s))"
proof (intro conjI impI)
  from create_order_cases [of s its A now_id now cust] assms
  show "statuses_valid (snd (create_order A now_id now cust its s))"
    by (auto simp: statuses_valid_def valid_status_def Order_init_def)
next
  assume "fst (create_order A now_id now cust its s) = Inr True"
  with create_order_cases [of s its A now_id now cust]
  show "status (last (orders (snd (create_order A now_id now cust its s)))) = ''Pending''"
    by (auto simp: Order_init_def)
next
  from assms show "statuses_valid (mark_orders_complete selected_orders s)"
    by (simp add: statuses_valid_def mark_orders_complete_def mark_complete_valid)
next
  from assms
  show "statuses_valid (snd (update_order_submit A py_float oid product_name quantity_text s))"
    by (rule update_order_submit_valid)
qed

theorem order_status_invariant_witness:
  "statuses_valid example_orders \<and>
   (\<exists>s'. create_order int_arith ''E'' 5 ''Eve'' [(''bread'', 1)] example_orders = (Inr True, s') \<and>
      statuses_valid s' \<and> status (last (orders s')) = ''Pending'') \<and>
   statuses_valid (mark_orders_complete {''A''} example_orders) \<and>
   map status (orders (mark_orders_complete {''A''} example_orders)) =
     [''Completed'', ''Completed'', ''Updated'', ''Completed''] \<and>
   statuses_valid (snd (update_order_submit int_arith read_one ''A'' ''cake'' ''1'' example_orders)) \<and>
   map status
     (orders (snd (update_order_submit int_arith read_one ''A'' ''cake'' ''1'' example_orders))) =
     [''Updated'', ''Completed'', ''Updated'', ''Completed'']"
proof -
  have h: "statuses_valid example_orders"
    by (simp add: statuses_valid_def valid_status_def example_orders_def)
  obtain s' where
    c: "create_order int_arith ''E'' 5 ''Eve'' [(''bread'', 1)] example_orders = (Inr True, s')"
    by (simp add: create_order_eval example_orders_def example_products_def)
  have m: "map status (orders (mark_orders_complete {''A''} example_orders)) =
     [''Completed'', ''Completed'', ''Updated'', ''Completed'']"
    by (simp add: mark_orders_complete_def example_orders_def)
  have u: "map status
      (orders (snd (update_order_submit int_arith read_one ''A'' ''cake'' ''1'' example_orders))) =
     [''Updated'', ''Completed'', ''Updated'', ''Completed'']"
    by (simp add: update_order_submit_def update_found_def add_item_def read_one_def
        int_arith_def example_orders_def example_products_def Let_def)
  from order_status_invariant [OF h, of int_arith "''E''" 5 "''Eve''" "[(''bread'', 1)]" "{''A''}"
      read_one "''A''" "''cake''" "''1''"] h c m u
  show ?thesis by auto
qed

text \<open>
  Claim C8. Adding a product and adding quantity to the stock of a product leave the
  orders, and so the total of every existing order, unchanged.
\<close>

theorem product_changes_keep_totals:
  "orders (add_product n p r q s) = orders s \<and>
   map total (orders (add_product n p r q s)) = map total (orders s) \<and>
   orders (snd (product_status_submit A py_float product_name quantity_text s)) = orders s \<and>
   map total (orders (snd (product_status_submit A py_float product_name quantity_text s))) =
     map total (orders s)"
  by (simp add: add_product_def product_status_submit_def split: option.splits sum.splits)

text \<open>
  Claim C9. When \<open>create_order\<close> returns \<open>False\<close> the whole manager is unchanged, and
  some requested item names no product or names a product with less stock than requested.
\<close>

theorem create_order_atomic:
  assumes "create_order A now_id now cust its s = (Inr False, s')"
  shows "s' = s \<and>
     (\<exists>(n, q) \<in> set its. n \<notin> set (map Product.name (products s)) \<or>
        (\<exists>p \<in> set (products s). Product.name p = n \<and> Product.quantity p < q))"
  using create_order_cases [of s its A now_id now cust] assms
    not_stock_ok [of "products s" its]
  by auto

theorem create_order_atomic_witness:
  "create_order int_arith ''20240101120000'' 7 ''Ann'' [(''bread'', 2), (''cake'', 3)]
      example_manager = (Inr False, example_manager) \<and>
   (\<exists>(n, q) \<in> set [(''bread'', 2 :: int), (''cake'', 3)].
      n \<notin> set (map Product.name (products example_manager)) \<or>
        (\<exists>p \<in> set (products example_manager). Product.name p = n \<and> Product.quantity p < q))"
proof -
  have h: "create_order int_arith ''20240101120000'' 7 ''Ann'' [(''bread'', 2), (''cake'', 3)]
      example_manager = (Inr False, example_manager)"
    by (simp add: create_order_eval example_defs)
  from create_order_atomic [OF h] h show ?thesis by simp
qed

text \<open>
  Claim C10. \<open>get_product_price\<close> is 0 when no product has the name, and otherwise the
  price of the first product of the list with that name.
\<close>

theorem get_product_price_first:
  "(product_name \<notin> set (map Product.name (products s)) \<longrightarrow> get_product_price s product_name = 0) \<and>
   (products s = before @ p # rest \<and> product_name \<notin> set (map Product.name before) \<and>
      Product.name p = product_name \<longrightarrow> get_product_price s product_name = price p)"
proof -
  have "List.find (\<lambda>p. Product.name p = n) (before @ p # rest) = Some p"
    if "n \<notin> set (map Product.name before)" "Product.name p = n" for n
    using that by (induction before) auto
  then show ?thesis
    by (auto simp: get_product_price_def find_name_set [THEN iffD2])
qed

theorem get_product_price_first_witness:
  "''pie'' \<notin> set (map Product.name (products duplicate_manager)) \<and>
   get_product_price duplicate_manager ''pie'' = 0 \<and>
   products duplicate_manager = [] @ stale_bread # [fresh_bread] \<and>
   ''bread'' \<notin> set (map Product.name ([] :: int Product list)) \<and>
   Product.name stale_bread = ''bread'' \<and>
   get_product_price duplicate_manager ''bread'' = 2"
proof -
  have a: "''pie'' \<notin> set (map Product.name (products duplicate_manager))"
    by (simp add: duplicate_manager_def stale_bread_def fresh_bread_def)
  have b: "products duplicate_manager = [] @ stale_bread # [fresh_bread] \<and>
      ''bread'' \<notin> set (map Product.name ([] :: int Product list)) \<and>
      Product.name stale_bread = ''bread''"
    by (simp add: duplicate_manager_def stale_bread_def)
  have c: "price stale_bread = 2"
    by (simp add: stale_bread_def)
  from get_product_price_first [of "''pie''" duplicate_manager, THEN conjunct1, rule_format, OF a]
    get_product_price_first [of _ duplicate_manager "[]" stale_bread "[fresh_bread]",
      THEN conjunct2, rule_format, OF b] a b c
  show ?thesis by simp
qed

end
